theory Spec2Isabelle
  imports Complex_Main
begin

section \<open>The course-hours update script \<^verbatim>\<open>update_lot.py\<close>\<close>

text \<open>
  The script is three pandas calls:
  \<^verbatim>\<open>
  df = pd.read_csv(r'data/courses/first_year_data.csv')
  df.loc[df['course_name'] == 'Programming using C', ['lecture_hours', 'practical_hours']] = [3, 4]
  df.to_csv(r'data/courses/first_year_data.csv', index=False)
  \<close>
  The embedding works on tables, not on CSV text: a file that \<^verbatim>\<open>read_csv\<close> accepts is
  identified with the DataFrame it yields, and \<^verbatim>\<open>to_csv\<close> stores the DataFrame it is
  given. The pandas operations follow pandas 2.x: \<^verbatim>\<open>df[c]\<close> raises KeyError for an unknown
  column, while \<^verbatim>\<open>df.loc[mask, keys] = values\<close> first adds every key that is not yet a
  column (setting with enlargement) and then sets the selected rows column by column.
  A second layer gives, for files of a simple shape, the text that \<^verbatim>\<open>read_csv\<close> turns into
  the table and the text that \<^verbatim>\<open>to_csv\<close> writes for it.
\<close>

subsection \<open>Data model\<close>

text \<open>
  A cell is a Python scalar: a finite number taken by value (so \<^verbatim>\<open>3\<close> and \<^verbatim>\<open>3.0\<close>, which
  Python's \<^verbatim>\<open>==\<close> identifies, are the same cell), a string, a boolean, or the missing
  value NaN.
\<close>

datatype cell = Num rat | Str string | Bool bool | NaN

text \<open>A DataFrame: the ordered column labels and the rows, each row holding one cell per
  column in column order. The default RangeIndex of \<^verbatim>\<open>read_csv\<close> is the list position.\<close>

record dataframe =
  columns :: "string list"
  rows :: "cell list list"

datatype error =
    FileNotFoundError
  | EmptyDataError
  | ParserError
  | KeyError string
  | ValueError

text \<open>What a stored file is to \<^verbatim>\<open>read_csv\<close>: empty, not parsable as a delimited table, or
  the text of a table.\<close>

datatype contents = Empty | Malformed | Csv dataframe

type_synonym storage = "string \<rightharpoonup> contents"

subsection \<open>The pandas operations the script calls\<close>

definition read_csv :: "storage \<Rightarrow> string \<Rightarrow> error + dataframe" where
  "read_csv fs p =
     (case fs p of
        None \<Rightarrow> Inl FileNotFoundError
      | Some Empty \<Rightarrow> Inl EmptyDataError
      | Some Malformed \<Rightarrow> Inl ParserError
      | Some (Csv df) \<Rightarrow> Inr df)"

text \<open>\<^verbatim>\<open>to_csv(path, index)\<close> replaces the file. With \<^verbatim>\<open>index=True\<close> the row labels are
  written as a first column with an empty header; the script passes \<^verbatim>\<open>index=False\<close>.\<close>

definition with_index :: "dataframe \<Rightarrow> dataframe" where
  "with_index df =
     \<lparr>columns = [] # columns df,
      rows = map (\<lambda>(i, r). Num (of_nat i) # r) (zip [0..<length (rows df)] (rows df))\<rparr>"

definition to_csv :: "dataframe \<Rightarrow> string \<Rightarrow> bool \<Rightarrow> storage \<Rightarrow> storage" where
  "to_csv df p index fs = fs(p \<mapsto> Csv (if index then with_index df else df))"

text \<open>Position of a label among the columns (first occurrence).\<close>

fun get_loc :: "string list \<Rightarrow> string \<Rightarrow> nat" where
  "get_loc [] k = 0"
| "get_loc (c # cs) k = (if c = k then 0 else Suc (get_loc cs k))"

text \<open>\<^verbatim>\<open>df[c]\<close>: the column as a list of cells, KeyError when there is no such column.\<close>

definition getitem :: "dataframe \<Rightarrow> string \<Rightarrow> error + cell list" where
  "getitem df c =
     (if c \<in> set (columns df)
      then Inr (map (\<lambda>r. r ! get_loc (columns df) c) (rows df))
      else Inl (KeyError c))"

text \<open>\<^verbatim>\<open>series == s\<close> for a string \<^verbatim>\<open>s\<close>: elementwise, exact string equality; a cell that is
  not a string is unequal.\<close>

fun cell_eq_str :: "cell \<Rightarrow> string \<Rightarrow> bool" where
  "cell_eq_str (Str s) t = (s = t)"
| "cell_eq_str (Num n) t = False"
| "cell_eq_str (Bool b) t = False"
| "cell_eq_str NaN t = False"

definition series_eq :: "cell list \<Rightarrow> string \<Rightarrow> bool list" where
  "series_eq s t = map (\<lambda>c. cell_eq_str c t) s"

text \<open>Setting with enlargement: a key of the column list that is no column yet is
  appended as a new column of NaN. (One corner of pandas 2.x is not reproduced: when a
  column is added, no row is selected and the table has as many rows as there are values,
  pandas leaves the new column without a dtype and \<^verbatim>\<open>to_csv\<close> raises.)\<close>

definition add_column :: "string \<Rightarrow> dataframe \<Rightarrow> dataframe" where
  "add_column k df = df\<lparr>columns := columns df @ [k], rows := map (\<lambda>r. r @ [NaN]) (rows df)\<rparr>"

definition ensure_listlike_indexer :: "string list \<Rightarrow> dataframe \<Rightarrow> dataframe" where
  "ensure_listlike_indexer keys df =
     fold (\<lambda>k d. if k \<in> set (columns d) then d else add_column k d) keys df"

text \<open>One column, at position \<open>loc\<close>, receives the value in the rows the mask selects.\<close>

definition setitem_single_column :: "nat \<Rightarrow> cell \<Rightarrow> bool list \<Rightarrow> dataframe \<Rightarrow> dataframe" where
  "setitem_single_column loc v sel df =
     df\<lparr>rows := map (\<lambda>(m, r). if m then r[loc := v] else r) (zip sel (rows df))\<rparr>"

text \<open>\<^verbatim>\<open>df.loc[mask, keys] = values\<close> with a list of values: one value per key, ValueError
  when the two lists differ in length.\<close>

definition loc_setitem ::
  "bool list \<Rightarrow> string list \<Rightarrow> cell list \<Rightarrow> dataframe \<Rightarrow> error + dataframe" where
  "loc_setitem sel keys vals df =
     (if length keys \<noteq> length vals then Inl ValueError
      else Inr (fold (\<lambda>(k, v) d. setitem_single_column (get_loc (columns d) k) v sel d)
                  (zip keys vals) (ensure_listlike_indexer keys df)))"

subsection \<open>The script\<close>

text \<open>Line 7, with the course name and the two hour values as parameters. The mask is
  evaluated first, so a missing \<^verbatim>\<open>course_name\<close> column raises before anything is set.\<close>

definition select_rows :: "string \<Rightarrow> dataframe \<Rightarrow> error + bool list" where
  "select_rows name df =
     (case getitem df ''course_name'' of
        Inl e \<Rightarrow> Inl e
      | Inr s \<Rightarrow> Inr (series_eq s name))"

definition assign_hours :: "string \<Rightarrow> int \<Rightarrow> int \<Rightarrow> dataframe \<Rightarrow> error + dataframe" where
  "assign_hours name lh ph df =
     (case select_rows name df of
        Inl e \<Rightarrow> Inl e
      | Inr sel \<Rightarrow>
          loc_setitem sel [''lecture_hours'', ''practical_hours'']
            [Num (of_int lh), Num (of_int ph)] df)"

text \<open>Lines 4 to 10: read, assign, write back to the same path. An exception ends the
  script, so on an error the storage is returned as it was. A failure of the write itself
  (permissions, a full disk) is not part of the embedding.\<close>

definition update_course_hours ::
  "string \<Rightarrow> string \<Rightarrow> int \<Rightarrow> int \<Rightarrow> storage \<Rightarrow> storage \<times> (error + unit)" where
  "update_course_hours p name lh ph fs =
     (case read_csv fs p of
        Inl e \<Rightarrow> (fs, Inl e)
      | Inr df \<Rightarrow>
          (case assign_hours name lh ph df of
             Inl e \<Rightarrow> (fs, Inl e)
           | Inr df' \<Rightarrow> (to_csv df' p False fs, Inr ())))"

definition data_path :: string where
  "data_path = ''data/courses/first_year_data.csv''"

definition update_lot :: "storage \<Rightarrow> storage \<times> (error + unit)" where
  "update_lot fs = update_course_hours data_path ''Programming using C'' 3 4 fs"

subsection \<open>The text of the file\<close>

text \<open>
  A file as its lines, line terminators left out; the first line is the header. The
  layer covers files without quoting in which every line has one field per header label
  and every field is empty, a decimal integer of at most 15 digits without sign or
  leading zero, or a word: letters, digits and blanks, beginning with a letter, not ending
  in a blank, and none of the tokens that pandas reads as a missing value, an infinity or
  a boolean. Any other file is outside the layer (\<open>None\<close>).
\<close>

datatype dtype = Int64 | Float64 | Object

fun split_fields :: "string \<Rightarrow> string list" where
  "split_fields [] = [[]]"
| "split_fields (c # cs) =
     (if c = CHR '','' then [] # split_fields cs
      else (case split_fields cs of [] \<Rightarrow> [[c]] | f # fs \<Rightarrow> (c # f) # fs))"

fun join_fields :: "string list \<Rightarrow> string" where
  "join_fields [] = []"
| "join_fields [f] = f"
| "join_fields (f # g # fs) = f @ CHR '','' # join_fields (g # fs)"

definition is_digit :: "char \<Rightarrow> bool" where
  "is_digit c \<longleftrightarrow> c \<in> set ''0123456789''"

definition is_letter :: "char \<Rightarrow> bool" where
  "is_letter c \<longleftrightarrow> c \<in> set ''abcdefghijklmnopqrstuvwxyzABCDEFGHIJKLMNOPQRSTUVWXYZ''"

definition lower :: "char \<Rightarrow> char" where
  "lower c =
     (if c \<in> set ''ABCDEFGHIJKLMNOPQRSTUVWXYZ'' then char_of (of_char c + (32::nat)) else c)"

definition is_int_literal :: "string \<Rightarrow> bool" where
  "is_int_literal f \<longleftrightarrow>
     f \<noteq> [] \<and> list_all is_digit f \<and> length f \<le> 15 \<and>
     (f = ''0'' \<or> hd f \<in> set ''123456789'')"

definition is_word :: "string \<Rightarrow> bool" where
  "is_word f \<longleftrightarrow>
     f \<noteq> [] \<and> is_letter (hd f) \<and> last f \<noteq> CHR '' '' \<and>
     list_all (\<lambda>c. is_letter c \<or> is_digit c \<or> c = CHR '' '') f \<and>
     map lower f \<notin>
       set [''nan'', ''na'', ''null'', ''none'', ''inf'', ''infinity'', ''true'', ''false'']"

definition is_label :: "string \<Rightarrow> bool" where
  "is_label f \<longleftrightarrow>
     f \<noteq> [] \<and> is_letter (hd f) \<and>
     list_all (\<lambda>c. is_letter c \<or> is_digit c \<or> c = CHR ''_'') f"

definition parse_nat :: "string \<Rightarrow> nat" where
  "parse_nat f = foldl (\<lambda>n c. 10 * n + (of_char c - 48)) 0 f"

fun show_nat :: "nat \<Rightarrow> string" where
  "show_nat n =
     (if n < 10 then [char_of (48 + n)] else show_nat (n div 10) @ [char_of (48 + n mod 10)])"

definition show_int :: "int \<Rightarrow> string" where
  "show_int i = (if i < 0 then CHR ''-'' # show_nat (nat (- i)) else show_nat (nat i))"

text \<open>The dtype \<^verbatim>\<open>read_csv\<close> infers for a column from its fields: int64 when every field
  is an integer, float64 when the fields are integers and blanks, object otherwise and
  for a table without rows.\<close>

definition infer_dtype :: "string list \<Rightarrow> dtype" where
  "infer_dtype col =
     (if col = [] then Object
      else if list_all is_int_literal col then Int64
      else if list_all (\<lambda>f. f = [] \<or> is_int_literal f) col then Float64
      else Object)"

fun parse_cell :: "dtype \<Rightarrow> string \<Rightarrow> cell" where
  "parse_cell Int64 f = Num (of_nat (parse_nat f))"
| "parse_cell Float64 f = (if f = [] then NaN else Num (of_nat (parse_nat f)))"
| "parse_cell Object f = (if f = [] then NaN else Str f)"

definition parse_csv :: "string list \<Rightarrow> (dtype list \<times> dataframe) option" where
  "parse_csv lines =
     (case lines of
        [] \<Rightarrow> None
      | h # ls \<Rightarrow>
          (let hdr = split_fields h;
               recs = map split_fields ls;
               dts = map (\<lambda>j. infer_dtype (map (\<lambda>r. r ! j) recs)) [0..<length hdr]
           in if list_all (\<lambda>l. l \<noteq> []) lines \<and> list_all is_label hdr \<and> distinct hdr \<and>
                 ''lecture_hours'' \<in> set hdr \<and> ''practical_hours'' \<in> set hdr \<and>
                 list_all (\<lambda>r. length r = length hdr \<and>
                                list_all (\<lambda>f. f = [] \<or> is_int_literal f \<or> is_word f) r) recs
              then Some (dts, \<lparr>columns = hdr,
                                rows = map (\<lambda>r. map (\<lambda>(d, f). parse_cell d f) (zip dts r)) recs\<rparr>)
              else None))"

text \<open>\<^verbatim>\<open>to_csv\<close> prints a cell by the dtype of its column: a number of a float64 column
  with its fractional part (\<^verbatim>\<open>3.0\<close>), a number of an int64 or object column as an integer,
  a string as it is, NaN as the empty field. The numbers of the layer are integers. The
  assignment of an integer leaves the dtype of an int64, float64 or object column as it
  was.\<close>

fun render_cell :: "dtype \<Rightarrow> cell \<Rightarrow> string" where
  "render_cell d NaN = []"
| "render_cell d (Str s) = s"
| "render_cell d (Bool b) = (if b then ''True'' else ''False'')"
| "render_cell Float64 (Num q) = show_int \<lfloor>q\<rfloor> @ ''.0''"
| "render_cell d (Num q) = show_int \<lfloor>q\<rfloor>"

definition render_csv :: "dtype list \<Rightarrow> dataframe \<Rightarrow> string list" where
  "render_csv dts df =
     join_fields (columns df) #
     map (\<lambda>r. join_fields (map (\<lambda>(d, c). render_cell d c) (zip dts r))) (rows df)"

text \<open>The script from the lines it reads to the lines it writes.\<close>

definition update_lot_text :: "string list \<Rightarrow> (error + string list) option" where
  "update_lot_text lines =
     (case parse_csv lines of
        None \<Rightarrow> None
      | Some (dts, df) \<Rightarrow>
          (case assign_hours ''Programming using C'' 3 4 df of
             Inl e \<Rightarrow> Some (Inl e)
           | Inr df' \<Rightarrow> Some (Inr (render_csv dts df'))))"

subsection \<open>Well-formed tables\<close>

text \<open>A DataFrame built by \<^verbatim>\<open>read_csv\<close> has distinct column labels (duplicates in the
  header are renamed) and one cell per column in every row.\<close>

definition dataframe_inv :: "dataframe \<Rightarrow> bool" where
  "dataframe_inv df \<longleftrightarrow>
     distinct (columns df) \<and> list_all (\<lambda>r. length r = length (columns df)) (rows df)"

text \<open>The precondition of the operation: the table has the three columns it uses.\<close>

definition well_formed :: "dataframe \<Rightarrow> bool" where
  "well_formed df \<longleftrightarrow>
     dataframe_inv df \<and> ''course_name'' \<in> set (columns df) \<and>
     ''lecture_hours'' \<in> set (columns df) \<and> ''practical_hours'' \<in> set (columns df)"

text \<open>A row as the mapping from column label to cell.\<close>

definition row_dict :: "dataframe \<Rightarrow> nat \<Rightarrow> string \<rightharpoonup> cell" where
  "row_dict df i = map_of (zip (columns df) (rows df ! i))"

text \<open>The tables of the specification's concrete scenario.\<close>

definition scenario_in :: dataframe where
  "scenario_in =
     \<lparr>columns = [''course_name'', ''lecture_hours'', ''practical_hours''],
      rows = [[Str ''Programming using C'', Num 2, Num 2], [Str ''Calculus'', Num 3, Num 0]]\<rparr>"

definition scenario_out :: dataframe where
  "scenario_out =
     \<lparr>columns = [''course_name'', ''lecture_hours'', ''practical_hours''],
      rows = [[Str ''Programming using C'', Num 3, Num 4], [Str ''Calculus'', Num 3, Num 0]]\<rparr>"

text \<open>A table with a further column and with course names that differ from the script's
  target by case and by surrounding blanks only.\<close>

definition variants :: dataframe where
  "variants =
     \<lparr>columns = [''course_code'', ''course_name'', ''lecture_hours'', ''practical_hours''],
      rows = [[Str ''CS101'', Str ''Programming using C'', Num 2, Num 2],
              [Str ''CS102'', Str ''programming using c'', Num 2, Num 2],
              [Str ''CS103'', Str '' Programming using C '', Num 2, Num 2]]\<rparr>"

text \<open>Tables that lack a column the script names.\<close>

definition no_practical_hours :: dataframe where
  "no_practical_hours =
     \<lparr>columns = [''course_name'', ''lecture_hours''],
      rows = [[Str ''Programming using C'', Num 2], [Str ''Calculus'', Num 3]]\<rparr>"

definition no_course_name :: dataframe where
  "no_course_name =
     \<lparr>columns = [''title'', ''lecture_hours'', ''practical_hours''],
      rows = [[Str ''Programming using C'', Num 2, Num 2]]\<rparr>"

section \<open>Properties\<close>

subsection \<open>Lists, column positions and rows as mappings\<close>

lemma zip_map_same: "zip (map f xs) xs = map (\<lambda>x. (f x, x)) xs"
  by (induction xs) auto

lemma zip_map_map_same: "zip (map f xs) (map g xs) = map (\<lambda>x. (f x, g x)) xs"
  by (induction xs) auto



lemma map_of_zip_get_loc:
  "k \<in> set cs \<Longrightarrow> length r = length cs \<Longrightarrow> map_of (zip cs r) k = Some (r ! get_loc cs k)"
proof (induction cs arbitrary: r)
  case Nil
  then show ?case by simp
next
  case (Cons c cs)
  then show ?case by (cases r) auto
qed

lemma map_of_zip_update:
  "k \<in> set cs \<Longrightarrow> length r = length cs \<Longrightarrow>
   map_of (zip cs (r[get_loc cs k := v])) = (map_of (zip cs r))(k \<mapsto> v)"
proof (induction cs arbitrary: r)
  case Nil
  then show ?case by simp
next
  case (Cons c cs)
  then show ?case by (cases r) (auto simp: fun_upd_twist)
qed

subsection \<open>The assignment in closed form\<close>

lemma ensure_present:
  "''lecture_hours'' \<in> set (columns df) \<Longrightarrow> ''practical_hours'' \<in> set (columns df) \<Longrightarrow>
   ensure_listlike_indexer [''lecture_hours'', ''practical_hours''] df = df"
  by (simp add: ensure_listlike_indexer_def)

lemma columns_setitem [simp]: "columns (setitem_single_column loc v sel df) = columns df"
  by (simp add: setitem_single_column_def)

lemma assign_hours_KeyError:
  "''course_name'' \<notin> set (columns df) \<Longrightarrow>
   assign_hours name lh ph df = Inl (KeyError ''course_name'')"
  by (simp add: assign_hours_def select_rows_def getitem_def)

text \<open>On a well-formed table nothing is added, and the two column-wise assignments
  amount to one pass over the rows.\<close>

lemma assign_hours_rows:
  assumes "well_formed df"
  shows "assign_hours name lh ph df =
     Inr (df\<lparr>rows := map (\<lambda>r. if cell_eq_str (r ! get_loc (columns df) ''course_name'') name
                              then r[get_loc (columns df) ''lecture_hours'' := Num (of_int lh),
                                     get_loc (columns df) ''practical_hours'' := Num (of_int ph)]
                              else r) (rows df)\<rparr>)"
  using assms
  by (simp add: well_formed_def assign_hours_def select_rows_def getitem_def series_eq_def
      loc_setitem_def ensure_present setitem_single_column_def zip_map_same zip_map_map_same
      o_def)

lemma update_course_hours_Csv:
  "fs p = Some (Csv df) \<Longrightarrow>
   update_course_hours p name lh ph fs =
     (case assign_hours name lh ph df of
        Inl e \<Rightarrow> (fs, Inl e)
      | Inr df' \<Rightarrow> (fs(p \<mapsto> Csv df'), Inr ()))"
  by (simp add: update_course_hours_def read_csv_def to_csv_def split: sum.splits)

lemma update_course_hours_wf:
  assumes "fs p = Some (Csv df)" and "well_formed df"
  shows "update_course_hours p name lh ph fs =
     (fs(p \<mapsto> Csv (df\<lparr>rows :=
        map (\<lambda>r. if cell_eq_str (r ! get_loc (columns df) ''course_name'') name
                  then r[get_loc (columns df) ''lecture_hours'' := Num (of_int lh),
                         get_loc (columns df) ''practical_hours'' := Num (of_int ph)]
                  else r) (rows df)\<rparr>)), Inr ())"
  using assms by (simp add: update_course_hours_Csv assign_hours_rows)

lemma well_formed_row_length:
  "well_formed df \<Longrightarrow> i < length (rows df) \<Longrightarrow> length (rows df ! i) = length (columns df)"
  by (simp add: well_formed_def dataframe_inv_def list_all_length)


lemma course_name_cell:
  assumes "well_formed df" and "i < length (rows df)"
  shows "cell_eq_str (rows df ! i ! get_loc (columns df) ''course_name'') name \<longleftrightarrow>
         row_dict df i ''course_name'' = Some (Str name)"
proof -
  have "row_dict df i ''course_name'' = Some (rows df ! i ! get_loc (columns df) ''course_name'')"
    using assms
    by (simp add: row_dict_def map_of_zip_get_loc well_formed_row_length well_formed_def)
  then show ?thesis
    by (cases "rows df ! i ! get_loc (columns df) ''course_name''") auto
qed

lemmas script_defs =
  update_lot_def update_course_hours_def read_csv_def to_csv_def assign_hours_def
  select_rows_def getitem_def series_eq_def loc_setitem_def ensure_listlike_indexer_def
  add_column_def setitem_single_column_def

lemmas table_defs =
  well_formed_def dataframe_inv_def row_dict_def scenario_in_def scenario_out_def
  variants_def no_practical_hours_def no_course_name_def

subsection \<open>The concrete scenario\<close>

text \<open>
  C1. On the two-row table with "Programming using C" (2, 2) and "Calculus" (3, 0), the
  update with course name "Programming using C" and hours 3 and 4 produces exactly the
  table with "Programming using C" (3, 4) and "Calculus" (3, 0); run as the script, that
  table replaces the file.
\<close>

theorem scenario_update:
  "assign_hours ''Programming using C'' 3 4 scenario_in = Inr scenario_out \<and>
   update_lot [data_path \<mapsto> Csv scenario_in] = ([data_path \<mapsto> Csv scenario_out], Inr ())"
  by (simp add: script_defs scenario_in_def scenario_out_def)

subsection \<open>Matching rows\<close>

text \<open>
  C2. In a well-formed table, a row is selected exactly when its \<^verbatim>\<open>course_name\<close> cell is
  the target string itself (string equality: case and blanks count). After the update a
  selected row maps \<^verbatim>\<open>lecture_hours\<close> and \<^verbatim>\<open>practical_hours\<close> to the new values and every
  other column to the cell it held before; a row whose name differs in any way is not
  selected.
\<close>

theorem targeted_mutation:
  assumes "fs p = Some (Csv df)" and "well_formed df" and "i < length (rows df)"
  shows "\<exists>df' sel. update_course_hours p name lh ph fs = (fs(p \<mapsto> Csv df'), Inr ()) \<and>
     select_rows name df = Inr sel \<and>
     (sel ! i \<longleftrightarrow> row_dict df i ''course_name'' = Some (Str name)) \<and>
     (row_dict df i ''course_name'' = Some (Str name) \<longrightarrow>
        row_dict df' i = (row_dict df i)(''lecture_hours'' \<mapsto> Num (of_int lh),
                                          ''practical_hours'' \<mapsto> Num (of_int ph)))"
proof -
  let ?cs = "columns df"
  let ?r = "rows df ! i"
  let ?sel = "map (\<lambda>r. cell_eq_str (r ! get_loc ?cs ''course_name'') name) (rows df)"
  let ?D = "df\<lparr>rows := map (\<lambda>r. if cell_eq_str (r ! get_loc ?cs ''course_name'') name
                  then r[get_loc ?cs ''lecture_hours'' := Num (of_int lh),
                         get_loc ?cs ''practical_hours'' := Num (of_int ph)]
                  else r) (rows df)\<rparr>"
  have len: "length ?r = length ?cs"
    using assms by (simp add: well_formed_row_length)
  have cols: "''course_name'' \<in> set ?cs" "''lecture_hours'' \<in> set ?cs"
    "''practical_hours'' \<in> set ?cs"
    using assms(2) by (simp_all add: well_formed_def)
  have sel: "select_rows name df = Inr ?sel"
    using cols by (simp add: select_rows_def getitem_def series_eq_def o_def)
  have upd: "map_of (zip ?cs (?r[get_loc ?cs ''lecture_hours'' := a,
                                 get_loc ?cs ''practical_hours'' := b])) =
             (map_of (zip ?cs ?r))(''lecture_hours'' \<mapsto> a, ''practical_hours'' \<mapsto> b)" for a b
    using cols len by (simp add: map_of_zip_update)
  have "update_course_hours p name lh ph fs = (fs(p \<mapsto> Csv ?D), Inr ())"
    using assms(1,2) by (rule update_course_hours_wf)
  moreover have "sel ! i \<longleftrightarrow> row_dict df i ''course_name'' = Some (Str name)" if "sel = ?sel" for sel
    using that assms by (simp add: course_name_cell)
  moreover have "row_dict ?D i = (row_dict df i)(''lecture_hours'' \<mapsto> Num (of_int lh),
                                          ''practical_hours'' \<mapsto> Num (of_int ph))"
    if "row_dict df i ''course_name'' = Some (Str name)"
    using that assms upd by (simp add: course_name_cell row_dict_def)
  ultimately show ?thesis
    using sel by blast
qed

text \<open>On the table of name variants: the first row is selected and receives 3 and 4, the
  rows that differ by case or by surrounding blanks are not selected.\<close>

theorem targeted_mutation_witness:
  "well_formed variants \<and>
   row_dict variants 0 ''course_name'' = Some (Str ''Programming using C'') \<and>
   (\<exists>df' sel.
      update_course_hours data_path ''Programming using C'' 3 4 [data_path \<mapsto> Csv variants] =
        ([data_path \<mapsto> Csv df'], Inr ()) \<and>
      select_rows ''Programming using C'' variants = Inr sel \<and> sel ! 0 \<and>
      row_dict df' 0 =
        (row_dict variants 0)(''lecture_hours'' \<mapsto> Num 3, ''practical_hours'' \<mapsto> Num 4)) \<and>
   (\<exists>sel. select_rows ''Programming using C'' variants = Inr sel \<and> \<not> sel ! 1 \<and> \<not> sel ! 2)"
proof -
  have wf: "well_formed variants"
    by (simp add: table_defs)
  have at: "[data_path \<mapsto> Csv variants] data_path = Some (Csv variants)"
    by simp
  have r0: "row_dict variants 0 ''course_name'' = Some (Str ''Programming using C'')"
    by (simp add: table_defs)
  have r1: "row_dict variants 1 ''course_name'' = Some (Str ''programming using c'')"
    by (simp add: table_defs)
  have r2: "row_dict variants 2 ''course_name'' = Some (Str '' Programming using C '')"
    by (simp add: table_defs)
  have n: "0 < length (rows variants)" "1 < length (rows variants)" "2 < length (rows variants)"
    by (simp_all add: table_defs)
  have a: "\<exists>df' sel.
      update_course_hours data_path ''Programming using C'' 3 4 [data_path \<mapsto> Csv variants] =
        ([data_path \<mapsto> Csv df'], Inr ()) \<and>
      select_rows ''Programming using C'' variants = Inr sel \<and> sel ! 0 \<and>
      row_dict df' 0 =
        (row_dict variants 0)(''lecture_hours'' \<mapsto> Num 3, ''practical_hours'' \<mapsto> Num 4)"
    using targeted_mutation [where fs = "[data_path \<mapsto> Csv variants]" and p = data_path
          and df = variants and i = 0 and name = "''Programming using C''" and lh = 3 and ph = 4]
        wf n r0 by simp
  have b: "\<exists>sel. select_rows ''Programming using C'' variants = Inr sel \<and> \<not> sel ! 1"
    using targeted_mutation [where fs = "[data_path \<mapsto> Csv variants]" and p = data_path
          and df = variants and i = 1 and name = "''Programming using C''" and lh = 3 and ph = 4]
        wf n r1 by auto
  have c: "\<exists>sel. select_rows ''Programming using C'' variants = Inr sel \<and> \<not> sel ! 2"
    using targeted_mutation [where fs = "[data_path \<mapsto> Csv variants]" and p = data_path
          and df = variants and i = 2 and name = "''Programming using C''" and lh = 3 and ph = 4]
        wf n r2 by auto
  from b c have "\<exists>sel. select_rows ''Programming using C'' variants = Inr sel \<and>
      \<not> sel ! 1 \<and> \<not> sel ! 2"
    by auto
  with wf r0 a show ?thesis by simp
qed

subsection \<open>Other rows\<close>

text \<open>
  As the specification words it the property asks for identical bytes, and those the
  script does not keep: every row is printed anew. In the file below
  \<^verbatim>\<open>lecture_hours\<close> has a blank, so the column is read as float64, and the row of
  "Calculus", which does not match, comes back with \<^verbatim>\<open>3.0\<close> where it had \<^verbatim>\<open>3\<close>.
\<close>

theorem unmatched_row_text_counterexample:
  "update_lot_text
     [''course_name,lecture_hours,practical_hours'',
      ''Programming using C,,2'',
      ''Calculus,3,''] =
   Some (Inr [''course_name,lecture_hours,practical_hours'',
              ''Programming using C,3.0,4.0'',
              ''Calculus,3.0,'']) \<and>
   ''Calculus,3.0,'' \<noteq> ''Calculus,3,''"
  by code_simp

text \<open>
  C3, as amended. In a well-formed table, a row whose \<^verbatim>\<open>course_name\<close> cell is not the
  target string has in the table written back, field for field, the values it had in the
  table as loaded: the row of the written table is the row of the source table. (The
  text of the row is printed anew and need not be the text that was read.)
\<close>

theorem selective_mutation:
  assumes "fs p = Some (Csv df)" and "well_formed df" and "i < length (rows df)"
    and "row_dict df i ''course_name'' \<noteq> Some (Str name)"
  shows "\<exists>df'. update_course_hours p name lh ph fs = (fs(p \<mapsto> Csv df'), Inr ()) \<and>
     columns df' = columns df \<and> rows df' ! i = rows df ! i \<and> row_dict df' i = row_dict df i"
proof -
  let ?D = "df\<lparr>rows := map (\<lambda>r. if cell_eq_str (r ! get_loc (columns df) ''course_name'') name
                  then r[get_loc (columns df) ''lecture_hours'' := Num (of_int lh),
                         get_loc (columns df) ''practical_hours'' := Num (of_int ph)]
                  else r) (rows df)\<rparr>"
  have "update_course_hours p name lh ph fs = (fs(p \<mapsto> Csv ?D), Inr ())"
    using assms(1,2) by (rule update_course_hours_wf)
  moreover have "rows ?D ! i = rows df ! i"
    using assms by (simp add: course_name_cell)
  ultimately show ?thesis
    by (intro exI [of _ ?D]) (simp add: row_dict_def)
qed

text \<open>The "Calculus" row of the scenario table.\<close>

theorem selective_mutation_witness:
  "well_formed scenario_in \<and> row_dict scenario_in 1 ''course_name'' \<noteq> Some (Str ''Programming using C'') \<and>
   (\<exists>df'. update_course_hours data_path ''Programming using C'' 3 4 [data_path \<mapsto> Csv scenario_in] =
        ([data_path \<mapsto> Csv df'], Inr ()) \<and>
      columns df' = [''course_name'', ''lecture_hours'', ''practical_hours''] \<and>
      rows df' ! 1 = [Str ''Calculus'', Num 3, Num 0])"
proof -
  have wf: "well_formed scenario_in"
    by (simp add: table_defs)
  have at: "[data_path \<mapsto> Csv scenario_in] data_path = Some (Csv scenario_in)"
    by simp
  have n: "1 < length (rows scenario_in)"
    by (simp add: table_defs)
  have r: "row_dict scenario_in 1 ''course_name'' \<noteq> Some (Str ''Programming using C'')"
    by (simp add: table_defs)
  have cs: "columns scenario_in = [''course_name'', ''lecture_hours'', ''practical_hours'']"
    by (simp add: scenario_in_def)
  have r1: "rows scenario_in ! 1 = [Str ''Calculus'', Num 3, Num 0]"
    by (simp add: scenario_in_def)
  show ?thesis
    using selective_mutation [where fs = "[data_path \<mapsto> Csv scenario_in]" and p = data_path
        and df = scenario_in and i = 1 and name = "''Programming using C''" and lh = 3 and ph = 4]
      wf n r r1
    by (auto simp: cs)
qed

subsection \<open>Shape of the table\<close>

text \<open>
  C4. For every well-formed input table the update succeeds, and the table it writes back
  has as many rows as the input and the same set of columns.
\<close>

theorem row_count_and_columns_kept:
  assumes "fs p = Some (Csv df)" and "well_formed df"
  shows "\<exists>df'. update_course_hours p name lh ph fs = (fs(p \<mapsto> Csv df'), Inr ()) \<and>
     length (rows df') = length (rows df) \<and> set (columns df') = set (columns df)"
proof -
  let ?D = "df\<lparr>rows := map (\<lambda>r. if cell_eq_str (r ! get_loc (columns df) ''course_name'') name
                  then r[get_loc (columns df) ''lecture_hours'' := Num (of_int lh),
                         get_loc (columns df) ''practical_hours'' := Num (of_int ph)]
                  else r) (rows df)\<rparr>"
  have "update_course_hours p name lh ph fs = (fs(p \<mapsto> Csv ?D), Inr ())"
    using assms by (rule update_course_hours_wf)
  then show ?thesis
    by (intro exI [of _ ?D]) simp
qed

text \<open>Three rows and four columns before and after.\<close>

theorem row_count_and_columns_kept_witness:
  "well_formed variants \<and>
   (\<exists>df'. update_course_hours data_path ''Programming using C'' 3 4 [data_path \<mapsto> Csv variants] =
        ([data_path \<mapsto> Csv df'], Inr ()) \<and>
      length (rows df') = 3 \<and>
      set (columns df') = {''course_code'', ''course_name'', ''lecture_hours'', ''practical_hours''})"
proof -
  have wf: "well_formed variants"
    by (simp add: table_defs)
  have at: "[data_path \<mapsto> Csv variants] data_path = Some (Csv variants)"
    by simp
  have n: "length (rows variants) = 3"
    by (simp add: variants_def)
  have cs: "set (columns variants) =
      {''course_code'', ''course_name'', ''lecture_hours'', ''practical_hours''}"
    by (simp add: variants_def)
  show ?thesis
    using row_count_and_columns_kept [where fs = "[data_path \<mapsto> Csv variants]"
        and p = data_path and df = variants and name = "''Programming using C''" and lh = 3
        and ph = 4] wf
    by (simp add: n cs)
qed

subsection \<open>Idempotence\<close>



subsection \<open>No matching row\<close>

text \<open>
  C6. If no row of a well-formed input table has the target as its \<^verbatim>\<open>course_name\<close>, the
  update is not an error and writes back the input table itself; the storage, taken as
  tables, is what it was.
\<close>

theorem no_match_noop:
  assumes "fs p = Some (Csv df)" and "well_formed df"
    and "\<forall>i<length (rows df). row_dict df i ''course_name'' \<noteq> Some (Str name)"
  shows "update_course_hours p name lh ph fs = (fs(p \<mapsto> Csv df), Inr ()) \<and>
         fs(p \<mapsto> Csv df) = fs"
proof -
  let ?cs = "columns df"
  let ?U = "\<lambda>r. if cell_eq_str (r ! get_loc ?cs ''course_name'') name
                 then r[get_loc ?cs ''lecture_hours'' := Num (of_int lh),
                        get_loc ?cs ''practical_hours'' := Num (of_int ph)] else r"
  have "map ?U (rows df) = rows df"
    using assms(2,3) by (intro nth_equalityI) (simp_all add: course_name_cell)
  then have "update_course_hours p name lh ph fs = (fs(p \<mapsto> Csv df), Inr ())"
    using update_course_hours_wf [of fs p df name lh ph] assms(1,2) by simp
  moreover have "fs(p \<mapsto> Csv df) = fs"
    using assms(1) by (simp add: fun_upd_idem)
  ultimately show ?thesis by simp
qed

text \<open>The scenario table has no course "Physics".\<close>

theorem no_match_noop_witness:
  "well_formed scenario_in \<and>
   row_dict scenario_in 0 ''course_name'' \<noteq> Some (Str ''Physics'') \<and>
   row_dict scenario_in 1 ''course_name'' \<noteq> Some (Str ''Physics'') \<and>
   update_course_hours data_path ''Physics'' 3 4 [data_path \<mapsto> Csv scenario_in] =
     ([data_path \<mapsto> Csv scenario_in], Inr ())"
proof -
  have wf: "well_formed scenario_in"
    by (simp add: table_defs)
  have r: "row_dict scenario_in 0 ''course_name'' \<noteq> Some (Str ''Physics'')"
    "row_dict scenario_in 1 ''course_name'' \<noteq> Some (Str ''Physics'')"
    by (simp_all add: table_defs)
  have n: "length (rows scenario_in) = 2"
    by (simp add: scenario_in_def)
  have none: "\<forall>i<length (rows scenario_in).
      row_dict scenario_in i ''course_name'' \<noteq> Some (Str ''Physics'')"
    using r by (simp add: n numeral_2_eq_2 less_Suc_eq)
  show ?thesis
    using no_match_noop [where fs = "[data_path \<mapsto> Csv scenario_in]" and p = data_path
        and df = scenario_in and name = "''Physics''" and lh = 3 and ph = 4] wf none r
    by simp
qed

subsection \<open>Missing columns\<close>

text \<open>
  The specification's schema-violation clause fails on a table without
  \<^verbatim>\<open>practical_hours\<close>: the script raises nothing, and the file is overwritten with a table
  that has the column, holding 4 in the matching row and NaN in the other.
\<close>

theorem schema_violation_counterexample:
  "''practical_hours'' \<notin> set (columns no_practical_hours) \<and>
   update_lot [data_path \<mapsto> Csv no_practical_hours] =
     ([data_path \<mapsto> Csv \<lparr>columns = [''course_name'', ''lecture_hours'', ''practical_hours''],
         rows = [[Str ''Programming using C'', Num 3, Num 4], [Str ''Calculus'', Num 3, NaN]]\<rparr>],
      Inr ()) \<and>
   fst (update_lot [data_path \<mapsto> Csv no_practical_hours]) data_path
     \<noteq> Some (Csv no_practical_hours)"
  by (simp add: script_defs no_practical_hours_def)

text \<open>
  C7, as amended. If the \<^verbatim>\<open>course_name\<close> column is missing from the loaded table, the
  operation fails, with KeyError, before any write, and the storage is left as it was.
  (Nothing in the script checks for \<^verbatim>\<open>lecture_hours\<close> or \<^verbatim>\<open>practical_hours\<close>.)
\<close>

theorem missing_course_name_fails:
  assumes "fs p = Some (Csv df)" and "''course_name'' \<notin> set (columns df)"
  shows "update_course_hours p name lh ph fs = (fs, Inl (KeyError ''course_name''))"
  using assms by (simp add: update_course_hours_Csv assign_hours_KeyError)

text \<open>A table whose name column is called \<^verbatim>\<open>title\<close>.\<close>

theorem missing_course_name_fails_witness:
  "''course_name'' \<notin> set (columns no_course_name) \<and>
   update_lot [data_path \<mapsto> Csv no_course_name] =
     ([data_path \<mapsto> Csv no_course_name], Inl (KeyError ''course_name''))"
proof -
  have a: "''course_name'' \<notin> set (columns no_course_name)"
    by (simp add: no_course_name_def)
  show ?thesis
    using missing_course_name_fails [where fs = "[data_path \<mapsto> Csv no_course_name]"
        and p = data_path and df = no_course_name and name = "''Programming using C''"
        and lh = 3 and ph = 4] a
    by (simp add: update_lot_def)
qed

subsection \<open>The written table\<close>

text \<open>
  C8. For a well-formed input table the run stores, in place of the file it read, the
  table that the assignment produced, and leaves the rest of the storage alone; reading
  the path afterwards yields that table. The table has the input's columns in the
  input's order, and its rows are the input's rows in the input's order, each row with
  the target name carrying the two new hour cells and every other row as it was.
\<close>

theorem written_table_rows_in_order:
  assumes "fs p = Some (Csv df)" and "well_formed df"
  shows "\<exists>df'. assign_hours name lh ph df = Inr df' \<and>
     update_course_hours p name lh ph fs = (fs(p \<mapsto> Csv df'), Inr ()) \<and>
     read_csv (fst (update_course_hours p name lh ph fs)) p = Inr df' \<and>
     columns df' = columns df \<and>
     rows df' =
       map (\<lambda>r. if cell_eq_str (r ! get_loc (columns df) ''course_name'') name
                 then r[get_loc (columns df) ''lecture_hours'' := Num (of_int lh),
                        get_loc (columns df) ''practical_hours'' := Num (of_int ph)]
                 else r) (rows df)"
proof -
  let ?cs = "columns df"
  let ?U = "\<lambda>r. if cell_eq_str (r ! get_loc ?cs ''course_name'') name
                 then r[get_loc ?cs ''lecture_hours'' := Num (of_int lh),
                        get_loc ?cs ''practical_hours'' := Num (of_int ph)] else r"
  let ?D = "df\<lparr>rows := map ?U (rows df)\<rparr>"
  have "assign_hours name lh ph df = Inr ?D"
    using assms(2) by (rule assign_hours_rows)
  moreover have "update_course_hours p name lh ph fs = (fs(p \<mapsto> Csv ?D), Inr ())"
    using assms by (rule update_course_hours_wf)
  ultimately show ?thesis
    by (intro exI [of _ ?D]) (simp add: read_csv_def)
qed

text \<open>The script on the table of name variants: the first row is written with 3 and 4,
  the two rows after it as they were, in this order.\<close>

theorem written_table_rows_in_order_witness:
  "well_formed variants \<and>
   (\<exists>df'. update_lot [data_path \<mapsto> Csv variants] = ([data_path \<mapsto> Csv df'], Inr ()) \<and>
      read_csv (fst (update_lot [data_path \<mapsto> Csv variants])) data_path = Inr df' \<and>
      columns df' = [''course_code'', ''course_name'', ''lecture_hours'', ''practical_hours''] \<and>
      rows df' = [[Str ''CS101'', Str ''Programming using C'', Num 3, Num 4],
                  [Str ''CS102'', Str ''programming using c'', Num 2, Num 2],
                  [Str ''CS103'', Str '' Programming using C '', Num 2, Num 2]])"
proof -
  have wf: "well_formed variants"
    by (simp add: table_defs)
  have cs: "columns variants =
      [''course_code'', ''course_name'', ''lecture_hours'', ''practical_hours'']"
    by (simp add: variants_def)
  have rs: "rows variants =
      [[Str ''CS101'', Str ''Programming using C'', Num 2, Num 2],
       [Str ''CS102'', Str ''programming using c'', Num 2, Num 2],
       [Str ''CS103'', Str '' Programming using C '', Num 2, Num 2]]"
    by (simp add: variants_def)
  show ?thesis
    using written_table_rows_in_order [where fs = "[data_path \<mapsto> Csv variants]"
        and p = data_path and df = variants and name = "''Programming using C''"
        and lh = 3 and ph = 4] wf
    by (auto simp: update_lot_def cs rs)
qed

subsection \<open>Read failure\<close>

text \<open>
  C9. The table is read before anything is written: when \<^verbatim>\<open>read_csv\<close> fails, the operation
  fails with that error and the storage is unchanged.
\<close>

theorem read_failure_leaves_storage:
  assumes "read_csv fs p = Inl e"
  shows "update_course_hours p name lh ph fs = (fs, Inl e)"
  using assms by (simp add: update_course_hours_def)

text \<open>A missing file and a file that does not parse.\<close>

theorem read_failure_leaves_storage_witness:
  "read_csv Map.empty data_path = Inl FileNotFoundError \<and>
   update_lot Map.empty = (Map.empty, Inl FileNotFoundError) \<and>
   read_csv [data_path \<mapsto> Malformed] data_path = Inl ParserError \<and>
   update_lot [data_path \<mapsto> Malformed] = ([data_path \<mapsto> Malformed], Inl ParserError)"
proof -
  have a: "read_csv Map.empty data_path = Inl FileNotFoundError"
    by (simp add: read_csv_def)
  have b: "read_csv [data_path \<mapsto> Malformed] data_path = Inl ParserError"
    by (simp add: read_csv_def)
  show ?thesis
    using read_failure_leaves_storage [OF a, of "''Programming using C''" 3 4]
      read_failure_leaves_storage [OF b, of "''Programming using C''" 3 4] a b
    by (simp add: update_lot_def)
qed

end
